theory Spec2Isabelle
  imports Main
begin

section \<open>wayes: a router over net/http's ServeMux, and its request context\<close>

text \<open>
  The package has two source units: the request context (type \<open>ctx\<close>, its constructor
  \<open>NewCtx\<close> and its methods) and the router (type \<open>wayes\<close>, its constructor \<open>New\<close>, the
  dispatch method \<open>handler\<close>, the route methods, \<open>Group\<close>, \<open>Use\<close> and \<open>Combine\<close>).
  Go mutates the context and the response through pointers; here every method takes the
  state it works on and returns the new one. A Go \<open>error\<close> result is an
  \<open>error option\<close>, with \<open>None\<close> for \<open>nil\<close>. Of the context's methods, \<open>Locals\<close>,
  \<open>Encode\<close>, \<open>JSON\<close> and \<open>SendStatus\<close> are left out: nothing below depends on them.
\<close>

subsection \<open>Errors\<close>

text \<open>
  Go errors are values compared by identity. The two package errors \<open>errEmptyBody\<close> and
  \<open>errInvalidBody\<close>, the standard library's \<open>io.EOF\<close>, an error made by
  \<open>errors.New\<close> and an error wrapping another one are different constructors, so an
  \<open>errors.New\<close> value never equals a package error, whatever its text.
\<close>

datatype error =
    errEmptyBody
  | errInvalidBody
  | io_EOF
  | errors_New string
  | Wrapped string error

fun Error :: "error \<Rightarrow> string" where
  "Error errEmptyBody = ''empty body''"
| "Error errInvalidBody = ''invalid body''"
| "Error io_EOF = ''EOF''"
| "Error (errors_New s) = s"
| "Error (Wrapped s e) = s"

text \<open>\<open>errors.Is\<close> walks the chain of wrapped errors and compares each link with the target.\<close>

fun errors_Is :: "error \<Rightarrow> error \<Rightarrow> bool" where
  "errors_Is (Wrapped s e) target = (Wrapped s e = target \<or> errors_Is e target)"
| "errors_Is e target = (e = target)"

subsection \<open>The outbound header set\<close>

text \<open>
  \<open>http.Header\<close> is a map from canonical header names to lists of values. \<open>Get\<close> and
  \<open>Set\<close> canonicalise the key first: a key made of header-name bytes only gets an upper-case
  letter at the start and after each hyphen and lower-case letters elsewhere; any other key
  is left as it is.
\<close>

type_synonym Header = "string \<rightharpoonup> string list"

definition validHeaderFieldByte :: "char \<Rightarrow> bool" where
  "validHeaderFieldByte c =
     (let n = (of_char c :: nat)
      in (48 \<le> n \<and> n \<le> 57) \<or> (65 \<le> n \<and> n \<le> 90) \<or> (97 \<le> n \<and> n \<le> 122) \<or>
         n \<in> {33, 35, 36, 37, 38, 39, 42, 43, 45, 46, 94, 95, 96, 124, 126})"

definition canonByte :: "bool \<Rightarrow> char \<Rightarrow> char" where
  "canonByte upper c =
     (let n = (of_char c :: nat)
      in if upper \<and> 97 \<le> n \<and> n \<le> 122 then char_of (n - 32)
         else if \<not> upper \<and> 65 \<le> n \<and> n \<le> 90 then char_of (n + 32)
         else c)"

fun canonBytes :: "bool \<Rightarrow> string \<Rightarrow> string" where
  "canonBytes upper [] = []"
| "canonBytes upper (c # cs) =
     (let c' = canonByte upper c in c' # canonBytes (c' = CHR ''-'') cs)"

definition CanonicalMIMEHeaderKey :: "string \<Rightarrow> string" where
  "CanonicalMIMEHeaderKey s = (if list_all validHeaderFieldByte s then canonBytes True s else s)"

definition Header_Get :: "Header \<Rightarrow> string \<Rightarrow> string" where
  "Header_Get h key =
     (case h (CanonicalMIMEHeaderKey key) of
        None \<Rightarrow> []
      | Some [] \<Rightarrow> []
      | Some (v # vs) \<Rightarrow> v)"

definition Header_Set :: "Header \<Rightarrow> string \<Rightarrow> string \<Rightarrow> Header" where
  "Header_Set h key val = h(CanonicalMIMEHeaderKey key \<mapsto> [val])"

subsection \<open>The response sink and the request\<close>

text \<open>
  \<open>http.ResponseWriter\<close> is an interface. The model is the recorder the package's tests
  serve into (\<open>httptest.ResponseRecorder\<close>), which has the behaviour every writer of
  net/http shares: the first \<open>WriteHeader\<close> fixes the status line and later calls change
  nothing; a \<open>Write\<close> before any \<open>WriteHeader\<close> fixes the status line at 200; the bytes
  written are appended to the body. \<open>WriteHeader\<close> asks for a status code from 100 to 999
  and panics on any other number; the model has no such panic, and what is stated below
  about a status line written from the context's stored status is stated for codes from
  100 to 999.
\<close>

record ResponseRecorder =
  HeaderMap :: Header
  Code :: int
  wroteHeader :: bool
  Body :: string

definition NewRecorder :: ResponseRecorder where
  "NewRecorder = \<lparr>HeaderMap = Map.empty, Code = 200, wroteHeader = False, Body = []\<rparr>"

definition WriteHeader :: "ResponseRecorder \<Rightarrow> int \<Rightarrow> ResponseRecorder" where
  "WriteHeader w code = (if wroteHeader w then w else w\<lparr>Code := code, wroteHeader := True\<rparr>)"

definition Write_bytes :: "ResponseRecorder \<Rightarrow> string \<Rightarrow> ResponseRecorder" where
  "Write_bytes w b = (let w' = WriteHeader w 200 in w'\<lparr>Body := Body w' @ b\<rparr>)"

text \<open>
  The \<open>Write\<close> method of the interface returns an error, and the context's \<open>Write\<close> looks
  at it. A \<open>Write\<close> method takes the response and the bytes and gives its error and the
  response as it leaves it; which method the writer has is a parameter of the context's
  \<open>Write\<close>. The recorder's own method appends the bytes and never fails.
\<close>

type_synonym Write_method = "ResponseRecorder \<Rightarrow> string \<Rightarrow> error option \<times> ResponseRecorder"

definition ResponseRecorder_Write :: Write_method where
  "ResponseRecorder_Write w b = (None, Write_bytes w b)"

text \<open>
  Of the inbound request the context uses the method and the body; its header is kept to
  tell it from the outbound one. The body is a stream: decoding consumes it.
\<close>

record Request =
  Method :: string
  URL_Path :: string
  ReqHeader :: Header
  ReqBody :: string

subsection \<open>Collaborators: the JSON decoder and the validator\<close>

text \<open>
  \<open>Decode\<close> hands the request body and the caller's target to \<open>encoding/json\<close>, and
  \<open>Validate\<close> hands the target to the \<open>Validater\<close> the router was made with. Both are
  outside the package and are parameters here. A decoder takes the body and the target and
  gives its error, the target as it left it and the rest of the body; a validator takes the
  target and gives its error, and does not change the target. \<open>'a\<close> is the type of
  targets.
\<close>

type_synonym 'a Decoder = "string \<Rightarrow> 'a \<Rightarrow> error option \<times> 'a \<times> string"

type_synonym 'a Validater = "'a \<Rightarrow> error option"

subsection \<open>The context\<close>

record 'a ctx =
  validator :: "'a Validater option"
  response :: ResponseRecorder
  request :: Request
  status :: int

definition StatusOK :: int where "StatusOK = 200"
definition StatusNoContent :: int where "StatusNoContent = 204"
definition StatusBadRequest :: int where "StatusBadRequest = 400"
definition StatusInternalServerError :: int where "StatusInternalServerError = 500"

definition MethodPost :: string where "MethodPost = ''POST''"
definition MethodPut :: string where "MethodPut = ''PUT''"
definition MethodPatch :: string where "MethodPatch = ''PATCH''"
definition MethodDelete :: string where "MethodDelete = ''DELETE''"

definition NewCtx :: "'a Validater option \<Rightarrow> ResponseRecorder \<Rightarrow> Request \<Rightarrow> 'a ctx" where
  "NewCtx v w r = \<lparr>validator = v, response = w, request = r, status = StatusOK\<rparr>"

definition ctx_Response :: "'a ctx \<Rightarrow> ResponseRecorder" where
  "ctx_Response c = response c"

definition ctx_Request :: "'a ctx \<Rightarrow> Request" where
  "ctx_Request c = request c"

definition ctx_Status :: "'a ctx \<Rightarrow> int \<Rightarrow> 'a ctx" where
  "ctx_Status c code = c\<lparr>status := code\<rparr>"

text \<open>The variadic \<open>defaultValue\<close> is the list of the arguments given after the key.\<close>

definition ctx_Get :: "'a ctx \<Rightarrow> string \<Rightarrow> string list \<Rightarrow> string" where
  "ctx_Get c key defaultValue =
     (let header = Header_Get (HeaderMap (response c)) key
      in if length header = 0
         then (case defaultValue of [] \<Rightarrow> [] | d # ds \<Rightarrow> d)
         else header)"

definition ctx_Set :: "'a ctx \<Rightarrow> string \<Rightarrow> string \<Rightarrow> 'a ctx" where
  "ctx_Set c key val =
     c\<lparr>response := (response c)\<lparr>HeaderMap := Header_Set (HeaderMap (response c)) key val\<rparr>\<rparr>"

definition ctx_ContentType :: "'a ctx \<Rightarrow> string \<Rightarrow> 'a ctx" where
  "ctx_ContentType c val = ctx_Set c ''Content-Type'' val"

text \<open>
  \<open>Decode\<close> returns its error, the context and the target. The decoder has read the body
  whether it failed or not, and has written to the target whatever it did.
\<close>

definition ctx_Decode :: "'a Decoder \<Rightarrow> 'a ctx \<Rightarrow> 'a \<Rightarrow> error option \<times> 'a ctx \<times> 'a" where
  "ctx_Decode dec c data =
     (case dec (ReqBody (request c)) data of (res, data', rest) \<Rightarrow>
        (let c1 = c\<lparr>request := (request c)\<lparr>ReqBody := rest\<rparr>\<rparr>
         in case res of
              Some err \<Rightarrow>
                (let c2 = ctx_Status c1 StatusBadRequest
                 in if (Method (request c2) = MethodPost \<or>
                        Method (request c2) = MethodPut \<or>
                        Method (request c2) = MethodPatch \<or>
                        Method (request c2) = MethodDelete) \<and>
                       errors_Is err io_EOF
                    then (Some errEmptyBody, c2, data')
                    else (Some errInvalidBody, c2, data'))
            | None \<Rightarrow> (None, c1, data')))"

definition ctx_Validate :: "'a Decoder \<Rightarrow> 'a ctx \<Rightarrow> 'a \<Rightarrow> error option \<times> 'a ctx \<times> 'a" where
  "ctx_Validate dec c data =
     (case ctx_Decode dec c data of
        (Some err, c1, data') \<Rightarrow> (Some err, c1, data')
      | (None, c1, data') \<Rightarrow>
          (case validator c1 of
             Some v \<Rightarrow>
               (case v data' of
                  Some err \<Rightarrow> (Some err, ctx_Status c1 StatusBadRequest, data')
                | None \<Rightarrow> (None, c1, data'))
           | None \<Rightarrow> (None, c1, data')))"

text \<open>
  \<open>Write\<close>: \<open>wr\<close> is the \<open>Write\<close> method of the response writer. When it returns an
  error, that error is the result; the response is as the method left it either way.
\<close>

definition ctx_Write :: "Write_method \<Rightarrow> 'a ctx \<Rightarrow> string \<Rightarrow> error option \<times> 'a ctx" where
  "ctx_Write wr c message =
     (let c1 = ctx_ContentType c ''text/plain; charset=utf-8'';
          c2 = c1\<lparr>response := WriteHeader (response c1) (status c1)\<rparr>
      in if status c2 = StatusNoContent then (None, c2)
         else (case wr (response c2) message of
                 (Some err, w') \<Rightarrow> (Some err, c2\<lparr>response := w'\<rparr>)
               | (None, w') \<Rightarrow> (None, c2\<lparr>response := w'\<rparr>)))"

definition ctx_Next :: "'a ctx \<Rightarrow> error option \<times> 'a ctx" where
  "ctx_Next c = (None, c)"

definition ctx_SendError :: "'a ctx \<Rightarrow> error \<Rightarrow> error option \<times> 'a ctx" where
  "ctx_SendError c message = (Some message, c\<lparr>response := WriteHeader (response c) (status c)\<rparr>)"

subsection \<open>Handlers and the dispatch method\<close>

text \<open>
  A \<open>Handler\<close> is a Go function from the context to an error. It may change the context it
  is given, and, being a closure, whatever else it has captured; \<open>'w\<close> is the type of that
  captured state. It returns its error, the context and the captured state as it leaves
  them.
\<close>

type_synonym ('a, 'w) Handler = "'a ctx \<Rightarrow> 'w \<Rightarrow> error option \<times> 'a ctx \<times> 'w"

text \<open>
  \<open>http.Error\<close>, as Go 1.22 has it: two headers, \<open>WriteHeader(code)\<close>, and the message
  followed by a newline as the body.
\<close>

definition http_Error :: "ResponseRecorder \<Rightarrow> string \<Rightarrow> int \<Rightarrow> ResponseRecorder" where
  "http_Error w err code =
     (let h1 = Header_Set (HeaderMap w) ''Content-Type'' ''text/plain; charset=utf-8'';
          h2 = Header_Set h1 ''X-Content-Type-Options'' ''nosniff'';
          w1 = WriteHeader (w\<lparr>HeaderMap := h2\<rparr>) code
      in Write_bytes w1 (err @ [CHR 0x0A]))"

text \<open>
  A router: the validator it hands to every context, a pointer to its \<open>ServeMux\<close> and its
  middleware list.
\<close>

record ('a, 'w) wayes =
  validator :: "'a Validater option"
  mux :: nat
  middlewares :: "('a, 'w) Handler list"

text \<open>
  The loop of \<open>handler\<close> over the middleware list: it stops at the first middleware that
  returns an error and gives that error back; \<open>None\<close> means the loop ran to its end.
\<close>

fun handler_loop :: "('a, 'w) Handler list \<Rightarrow> 'a ctx \<Rightarrow> 'w \<Rightarrow> error option \<times> 'a ctx \<times> 'w" where
  "handler_loop [] c e = (None, c, e)"
| "handler_loop (middleware # rest) c e =
     (case middleware c e of
        (Some err, c', e') \<Rightarrow> (Some err, c', e')
      | (None, c', e') \<Rightarrow> handler_loop rest c' e')"

text \<open>
  \<open>handler\<close> returns nothing in Go; its effect is on the response writer and on what the
  handlers captured, and these two are the result here.
\<close>

definition handler ::
  "('a, 'w) wayes \<Rightarrow> ('a, 'w) Handler \<Rightarrow> ResponseRecorder \<Rightarrow> Request \<Rightarrow> 'w \<Rightarrow> ResponseRecorder \<times> 'w"
where
  "handler rt h w r e =
     (let context = NewCtx (wayes.validator rt) w r
      in case handler_loop (middlewares rt) context e of
           (Some err, c', e') \<Rightarrow>
             (http_Error (ctx_Response c') (Error err) StatusInternalServerError, e')
         | (None, c', e') \<Rightarrow>
             (case h c' e' of
                (Some err, c'', e'') \<Rightarrow>
                  (http_Error (ctx_Response c'') (Error err) StatusInternalServerError, e'')
              | (None, c'', e'') \<Rightarrow> (ctx_Response c'', e'')))"

subsection \<open>Routers on the heap\<close>

text \<open>
  Routers and their \<open>ServeMux\<close>es are shared through pointers: a group's mux is mounted in
  its parent and routes are added to it afterwards, and a route's closure reads its
  router's middleware list when a request arrives. The heap holds every router and every
  mux; a pointer is an index into it, and allocation appends, so a new object is never an
  old one. A call on a pointer that is not on the heap panics, as a nil pointer does.
\<close>

datatype ('a, 'w) mux_Handler =
    HandlerFunc nat "('a, 'w) Handler"
  | StripPrefix string nat
  | ServeMuxHandler nat

text \<open>
  The three kinds of handler the package registers: the closure \<open>rt.handler(handler, w, r)\<close>
  of a route, which holds the router and the route's handler; \<open>http.StripPrefix(path, mux)\<close> of
  a group; and a \<open>ServeMux\<close> itself, given to \<open>Combine\<close>.
\<close>

type_synonym ('a, 'w) ServeMux = "(string \<times> ('a, 'w) mux_Handler) list"

record ('a, 'w) heap =
  routers :: "('a, 'w) wayes list"
  muxes :: "('a, 'w) ServeMux list"

datatype 'x outcome = Panics string | Returns 'x

text \<open>
  \<open>ServeMux.Handle\<close> panics when the pattern conflicts with one that is registered. Which
  different patterns conflict depends on net/http's pattern syntax and is not modelled;
  the case kept is the one every version of net/http has: a pattern equal to a registered
  one.
\<close>

definition ServeMux_Handle ::
  "nat \<Rightarrow> string \<Rightarrow> ('a, 'w) mux_Handler \<Rightarrow> ('a, 'w) heap \<Rightarrow> ('a, 'w) heap outcome"
where
  "ServeMux_Handle m pattern h s =
     (if \<not> m < length (muxes s) then Panics ''nil pointer dereference''
      else if pattern \<in> set (map fst (muxes s ! m))
      then Panics (''pattern conflicts with a registered pattern: '' @ pattern)
      else Returns (s\<lparr>muxes := (muxes s)[m := muxes s ! m @ [(pattern, h)]]\<rparr>))"

text \<open>\<open>New\<close>: the variadic \<open>validator\<close> is the list of the arguments given.\<close>

definition New :: "'a Validater option list \<Rightarrow> ('a, 'w) heap \<Rightarrow> nat \<times> ('a, 'w) heap" where
  "New vs s =
     (let vs' = (if length vs = 0 then [None] else vs);
          rt = \<lparr>validator = (case vs' of [] \<Rightarrow> None | v # _ \<Rightarrow> v), mux = length (muxes s), middlewares = []\<rparr>
      in (length (routers s), s\<lparr>routers := routers s @ [rt], muxes := muxes s @ [[]]\<rparr>))"

definition wayes_Mux :: "nat \<Rightarrow> ('a, 'w) heap \<Rightarrow> nat outcome" where
  "wayes_Mux rt s =
     (if rt < length (routers s) then Returns (mux (routers s ! rt))
      else Panics ''nil pointer dereference'')"

text \<open>The route methods differ in the method name of the pattern only.\<close>

definition route ::
  "string \<Rightarrow> nat \<Rightarrow> string \<Rightarrow> ('a, 'w) Handler \<Rightarrow> ('a, 'w) heap \<Rightarrow> ('a, 'w) heap outcome"
where
  "route method rt path h s =
     (if rt < length (routers s)
      then ServeMux_Handle (mux (routers s ! rt)) (method @ '' '' @ path) (HandlerFunc rt h) s
      else Panics ''nil pointer dereference'')"

definition wayes_Head where "wayes_Head = route ''HEAD''"
definition wayes_Get where "wayes_Get = route ''GET''"
definition wayes_Options where "wayes_Options = route ''OPTIONS''"
definition wayes_Post where "wayes_Post = route ''POST''"
definition wayes_Patch where "wayes_Patch = route ''PATCH''"
definition wayes_Put where "wayes_Put = route ''PUT''"
definition wayes_Delete where "wayes_Delete = route ''DELETE''"

text \<open>\<open>Use\<close> appends the handlers one by one to the router's own list.\<close>

definition wayes_Use ::
  "nat \<Rightarrow> ('a, 'w) Handler list \<Rightarrow> ('a, 'w) heap \<Rightarrow> ('a, 'w) heap outcome"
where
  "wayes_Use rt handlers s =
     (if rt < length (routers s)
      then Returns (s\<lparr>routers := (routers s)[rt := (routers s ! rt)
             \<lparr>middlewares := foldl (\<lambda>ms h. ms @ [h]) (middlewares (routers s ! rt)) handlers\<rparr>]\<rparr>)
      else Panics ''nil pointer dereference'')"

definition wayes_Group :: "nat \<Rightarrow> string \<Rightarrow> ('a, 'w) heap \<Rightarrow> (nat \<times> ('a, 'w) heap) outcome" where
  "wayes_Group rt path s =
     (if rt < length (routers s)
      then (case New [wayes.validator (routers s ! rt)] s of (g, s1) \<Rightarrow>
              (case wayes_Use g (middlewares (routers s1 ! rt)) s1 of
                 Panics p \<Rightarrow> Panics p
               | Returns s2 \<Rightarrow>
                   (case ServeMux_Handle (mux (routers s2 ! rt)) (path @ ''/'')
                           (StripPrefix path (mux (routers s2 ! g))) s2 of
                      Panics p \<Rightarrow> Panics p
                    | Returns s3 \<Rightarrow> Returns (g, s3))))
      else Panics ''nil pointer dereference'')"

fun Combine_loop :: "nat \<Rightarrow> nat list \<Rightarrow> ('a, 'w) heap \<Rightarrow> ('a, 'w) heap outcome" where
  "Combine_loop rt [] s = Returns s"
| "Combine_loop rt (router # rest) s =
     (case wayes_Mux rt s of
        Panics p \<Rightarrow> Panics p
      | Returns m \<Rightarrow>
          (case ServeMux_Handle m ''/'' (ServeMuxHandler router) s of
             Panics p \<Rightarrow> Panics p
           | Returns s' \<Rightarrow> Combine_loop rt rest s'))"

definition wayes_Combine :: "nat \<Rightarrow> nat list \<Rightarrow> ('a, 'w) heap \<Rightarrow> (nat \<times> ('a, 'w) heap) outcome" where
  "wayes_Combine rt routers_given s =
     (case Combine_loop rt routers_given s of
        Panics p \<Rightarrow> Panics p
      | Returns s' \<Rightarrow>
          (case wayes_Mux rt s' of
             Panics p \<Rightarrow> Panics p
           | Returns m \<Rightarrow> Returns (m, s')))"

text \<open>
  What a route's closure does when the mux calls it: it runs \<open>handler\<close> on its router as the
  router is then.
\<close>

definition HandlerFunc_ServeHTTP ::
  "('a, 'w) heap \<Rightarrow> nat \<Rightarrow> ('a, 'w) Handler \<Rightarrow> ResponseRecorder \<Rightarrow> Request \<Rightarrow> 'w
     \<Rightarrow> (ResponseRecorder \<times> 'w) outcome"
where
  "HandlerFunc_ServeHTTP s rt h w r e =
     (if rt < length (routers s) then Returns (handler (routers s ! rt) h w r e)
      else Panics ''nil pointer dereference'')"

subsection \<open>Observing which handlers run\<close>

text \<open>
  To say which handlers a dispatch runs and in which order, each handler is given a number
  and a log is put beside the state it has captured: \<open>logged i h\<close> is the handler \<open>h\<close>
  that also appends \<open>i\<close> to the log. It leaves \<open>h\<close>'s error, context and captured state as
  \<open>h\<close> gives them, and \<open>h\<close> cannot see the log. \<open>logged_from i hs\<close> numbers a list of
  handlers from \<open>i\<close> on.
\<close>

definition logged :: "nat \<Rightarrow> ('a, 'w) Handler \<Rightarrow> ('a, nat list \<times> 'w) Handler" where
  "logged i h = (\<lambda>c (l, e). case h c e of (res, c', e') \<Rightarrow> (res, c', (l @ [i], e')))"

fun logged_from :: "nat \<Rightarrow> ('a, 'w) Handler list \<Rightarrow> ('a, nat list \<times> 'w) Handler list" where
  "logged_from i [] = []"
| "logged_from i (h # hs) = logged i h # logged_from (Suc i) hs"

text \<open>
  \<open>ran ms c e\<close> is the number of middleware of \<open>ms\<close> that the loop of \<open>handler\<close> calls from
  the context \<open>c\<close> and the captured state \<open>e\<close>: all of them, or those up to the first that
  returns an error.
\<close>

fun ran :: "('a, 'w) Handler list \<Rightarrow> 'a ctx \<Rightarrow> 'w \<Rightarrow> nat" where
  "ran [] c e = 0"
| "ran (m # ms) c e =
     (case m c e of
        (Some err, c', e') \<Rightarrow> Suc 0
      | (None, c', e') \<Rightarrow> Suc (ran ms c' e'))"

subsection \<open>Example values\<close>

text \<open>
  A request, a toy decoder (an empty body is \<open>io.EOF\<close>, the body \<open>7\<close> decodes to the number
  7, any other body is a syntax error), a toy validator (numbers below 5 pass), and four
  handlers: one that calls \<open>Next\<close>, one that returns \<open>ctx.Status(403).SendError(err)\<close>, one
  that sets the status to 403 and returns the error itself, and one that writes a text.
\<close>

definition example_request :: Request where
  "example_request = \<lparr>Method = ''POST'', URL_Path = ''/welcome'',
     ReqHeader = Map.empty(''X-Token'' \<mapsto> [''abc'']), ReqBody = ''7''\<rparr>"

definition example_ctx :: "nat ctx" where
  "example_ctx = NewCtx None NewRecorder example_request"

definition example_Decoder :: "nat Decoder" where
  "example_Decoder body data =
     (if body = [] then (Some io_EOF, data, [])
      else if body = ''7'' then (None, 7, [])
      else (Some (errors_New ''invalid character''), data, []))"

definition example_Validater :: "nat Validater" where
  "example_Validater n = (if n < 5 then None else Some (errors_New ''too big''))"

definition validated_ctx :: "nat ctx" where
  "validated_ctx = NewCtx (Some example_Validater) NewRecorder example_request"



definition pass_Handler :: "(nat, unit) Handler" where
  "pass_Handler c e = (case ctx_Next c of (res, c') \<Rightarrow> (res, c', e))"

definition deny_Handler :: "(nat, unit) Handler" where
  "deny_Handler c e =
     (case ctx_SendError (ctx_Status c 403) (errors_New ''access denied'') of
        (res, c') \<Rightarrow> (res, c', e))"

definition status_only_Handler :: "(nat, unit) Handler" where
  "status_only_Handler c e = (Some (errors_New ''access denied''), ctx_Status c 403, e)"

definition hello_Handler :: "(nat, unit) Handler" where
  "hello_Handler c e =
     (case ctx_Write ResponseRecorder_Write c ''hello'' of (res, c') \<Rightarrow> (res, c', e))"

definition example_router :: "(nat, unit) wayes" where
  "example_router = \<lparr>validator = None, mux = 0, middlewares = []\<rparr>"

text \<open>
  Heaps: a router with two middleware; the same after \<open>Group("/users")\<close>; that one after
  \<open>Use\<close> on the parent, and after \<open>Use\<close> on the group; and three routers with one route
  each.
\<close>

definition example_heap :: "(nat, unit) heap" where
  "example_heap =
     \<lparr>routers = [\<lparr>validator = None, mux = 0, middlewares = [pass_Handler, deny_Handler]\<rparr>],
      muxes = [[]]\<rparr>"

definition grouped_heap :: "(nat, unit) heap" where
  "grouped_heap =
     \<lparr>routers = [\<lparr>validator = None, mux = 0, middlewares = [pass_Handler, deny_Handler]\<rparr>,
                 \<lparr>validator = None, mux = 1, middlewares = [pass_Handler, deny_Handler]\<rparr>],
      muxes = [[(''/users/'', StripPrefix ''/users'' 1)], []]\<rparr>"

definition used_heap :: "(nat, unit) heap" where
  "used_heap =
     \<lparr>routers = [\<lparr>validator = None, mux = 0,
                    middlewares = [pass_Handler, deny_Handler, hello_Handler]\<rparr>,
                 \<lparr>validator = None, mux = 1, middlewares = [pass_Handler, deny_Handler]\<rparr>],
      muxes = [[(''/users/'', StripPrefix ''/users'' 1)], []]\<rparr>"

definition group_used_heap :: "(nat, unit) heap" where
  "group_used_heap =
     \<lparr>routers = [\<lparr>validator = None, mux = 0, middlewares = [pass_Handler, deny_Handler]\<rparr>,
                 \<lparr>validator = None, mux = 1,
                    middlewares = [pass_Handler, deny_Handler, hello_Handler]\<rparr>],
      muxes = [[(''/users/'', StripPrefix ''/users'' 1)], []]\<rparr>"

definition combine_heap :: "(nat, unit) heap" where
  "combine_heap =
     \<lparr>routers = [\<lparr>validator = None, mux = 0, middlewares = []\<rparr>,
                 \<lparr>validator = None, mux = 1, middlewares = []\<rparr>,
                 \<lparr>validator = None, mux = 2, middlewares = []\<rparr>],
      muxes = [[(''GET /a'', HandlerFunc 0 hello_Handler)],
               [(''GET /b'', HandlerFunc 1 hello_Handler)],
               [(''GET /c'', HandlerFunc 2 hello_Handler)]]\<rparr>"

text \<open>
  The same with numbered handlers: a parent with the middleware 0 and 1, its group, and the
  group after \<open>Use\<close> with the middleware 2.
\<close>

definition chain_heap :: "(nat, nat list \<times> unit) heap" where
  "chain_heap =
     \<lparr>routers = [\<lparr>validator = None, mux = 0,
                    middlewares = [logged 0 pass_Handler, logged 1 pass_Handler]\<rparr>],
      muxes = [[]]\<rparr>"

definition chain_grouped_heap :: "(nat, nat list \<times> unit) heap" where
  "chain_grouped_heap =
     \<lparr>routers = [\<lparr>validator = None, mux = 0,
                    middlewares = [logged 0 pass_Handler, logged 1 pass_Handler]\<rparr>,
                 \<lparr>validator = None, mux = 1,
                    middlewares = [logged 0 pass_Handler, logged 1 pass_Handler]\<rparr>],
      muxes = [[(''/users/'', StripPrefix ''/users'' 1)], []]\<rparr>"

definition chain_used_heap :: "(nat, nat list \<times> unit) heap" where
  "chain_used_heap =
     \<lparr>routers = [\<lparr>validator = None, mux = 0,
                    middlewares = [logged 0 pass_Handler, logged 1 pass_Handler]\<rparr>,
                 \<lparr>validator = None, mux = 1,
                    middlewares = [logged 0 pass_Handler, logged 1 pass_Handler,
                                   logged 2 pass_Handler]\<rparr>],
      muxes = [[(''/users/'', StripPrefix ''/users'' 1)], []]\<rparr>"

section \<open>The request context\<close>

text \<open>
  C9. \<open>Get\<close> reads the outbound header set of the response and never the inbound request:
  its result does not change when the request is replaced by any other one; after
  \<open>Set(key, value)\<close> with a non-empty value, \<open>Get(key)\<close> is that value; for a key that
  the outbound header set does not have, \<open>Get\<close> is the default when one is given and the empty
  string otherwise.
\<close>

theorem ctx_Get_spec:
  "ctx_Get (c\<lparr>request := r\<rparr>) key d = ctx_Get c key d \<and>
   (val \<noteq> [] \<longrightarrow> ctx_Get (ctx_Set c key val) key d = val) \<and>
   (HeaderMap (response c) (CanonicalMIMEHeaderKey key) = None \<longrightarrow>
      ctx_Get c key (dv # ds) = dv \<and> ctx_Get c key [] = [])"
  by (simp add: ctx_Get_def ctx_Set_def Header_Get_def Header_Set_def)

text \<open>
  At a context whose request carries the header \<open>X-Token\<close> and whose response has no header
  yet.
\<close>

theorem ctx_Get_spec_witness:
  "ctx_Get (ctx_Set example_ctx ''test'' ''123'') ''test'' [] = ''123'' \<and>
   ReqHeader (request example_ctx) ''X-Token'' = Some [''abc''] \<and>
   ctx_Get example_ctx ''X-Token'' [''none''] = ''none'' \<and>
   ctx_Get example_ctx ''X-Token'' [] = []"
  using ctx_Get_spec [where c = example_ctx and key = "''test''" and val = "''123''" and d = "[]"]
    ctx_Get_spec [where c = example_ctx and key = "''X-Token''" and dv = "''none''" and ds = "[]"]
  by (simp add: example_ctx_def example_request_def NewCtx_def NewRecorder_def)




text \<open>
  C4. \<open>Decode\<close> returns \<open>errEmptyBody\<close> exactly when the decoder fails with \<open>io.EOF\<close> and
  the method is POST, PUT, PATCH or DELETE; it returns \<open>errInvalidBody\<close> exactly when the
  decoder fails in any other way or with any other method; whenever the decoder fails the
  status becomes 400; when the decoder succeeds \<open>Decode\<close> returns no error and leaves the
  status alone.
\<close>

theorem ctx_Decode_spec:
  "(fst (ctx_Decode dec c data) = Some errEmptyBody \<longleftrightarrow>
      (\<exists>err. fst (dec (ReqBody (request c)) data) = Some err \<and> errors_Is err io_EOF \<and>
         Method (request c) \<in> {''POST'', ''PUT'', ''PATCH'', ''DELETE''})) \<and>
   (fst (ctx_Decode dec c data) = Some errInvalidBody \<longleftrightarrow>
      (\<exists>err. fst (dec (ReqBody (request c)) data) = Some err \<and>
         \<not> (errors_Is err io_EOF \<and>
            Method (request c) \<in> {''POST'', ''PUT'', ''PATCH'', ''DELETE''}))) \<and>
   (fst (dec (ReqBody (request c)) data) \<noteq> None \<longrightarrow>
      status (fst (snd (ctx_Decode dec c data))) = 400) \<and>
   (fst (dec (ReqBody (request c)) data) = None \<longrightarrow>
      fst (ctx_Decode dec c data) = None \<and>
      status (fst (snd (ctx_Decode dec c data))) = status c)"
  by (cases "dec (ReqBody (request c)) data")
     (auto simp add: ctx_Decode_def ctx_Status_def StatusBadRequest_def MethodPost_def
        MethodPut_def MethodPatch_def MethodDelete_def Let_def split: option.splits)

text \<open>An empty body with POST and with GET, and a body that decodes.\<close>

theorem ctx_Decode_spec_witness:
  "fst (ctx_Decode example_Decoder (example_ctx\<lparr>request := example_request\<lparr>ReqBody := []\<rparr>\<rparr>) 0)
     = Some errEmptyBody \<and>
   fst (ctx_Decode example_Decoder
     (example_ctx\<lparr>request := example_request\<lparr>ReqBody := [], Method := ''GET''\<rparr>\<rparr>) 0)
     = Some errInvalidBody \<and>
   status (fst (snd (ctx_Decode example_Decoder
     (example_ctx\<lparr>request := example_request\<lparr>ReqBody := [], Method := ''GET''\<rparr>\<rparr>) 0))) = 400 \<and>
   fst (ctx_Decode example_Decoder example_ctx 0) = None"
  using ctx_Decode_spec [where dec = example_Decoder and data = 0
      and c = "example_ctx\<lparr>request := example_request\<lparr>ReqBody := []\<rparr>\<rparr>"]
    ctx_Decode_spec [where dec = example_Decoder and data = 0
      and c = "example_ctx\<lparr>request := example_request\<lparr>ReqBody := [], Method := ''GET''\<rparr>\<rparr>"]
    ctx_Decode_spec [where dec = example_Decoder and data = 0 and c = example_ctx]
  by (simp add: example_ctx_def example_request_def example_Decoder_def NewCtx_def)

text \<open>
  C7. \<open>Validate\<close> calls \<open>Decode\<close> first. When \<open>Decode\<close> fails, \<open>Validate\<close> returns what
  \<open>Decode\<close> returned, error and state, with the status at 400. When \<open>Decode\<close> succeeds and
  the validator rejects the decoded target, \<open>Validate\<close> sets the status to 400 and returns
  the validator's error; when the validator accepts it, or when there is no validator,
  \<open>Validate\<close> returns no error.
\<close>

theorem ctx_Validate_spec:
  "(fst (ctx_Decode dec c data) \<noteq> None \<longrightarrow>
      ctx_Validate dec c data = ctx_Decode dec c data \<and>
      status (fst (snd (ctx_Validate dec c data))) = 400) \<and>
   (ctx_Decode dec c data = (None, c', data') \<and> ctx.validator c = Some v \<and> v data' = Some err \<longrightarrow>
      ctx_Validate dec c data = (Some err, c'\<lparr>status := 400\<rparr>, data')) \<and>
   (ctx_Decode dec c data = (None, c', data') \<and> ctx.validator c = Some v \<and> v data' = None \<longrightarrow>
      ctx_Validate dec c data = (None, c', data')) \<and>
   (ctx_Decode dec c data = (None, c', data') \<and> ctx.validator c = None \<longrightarrow>
      ctx_Validate dec c data = (None, c', data'))"
  by (cases "dec (ReqBody (request c)) data")
     (auto simp add: ctx_Validate_def ctx_Decode_def ctx_Status_def StatusBadRequest_def Let_def
        split: option.splits if_splits)

text \<open>
  An empty body; the body 7 with a validator that rejects 7; the body 7 with no validator.
\<close>

theorem ctx_Validate_spec_witness:
  "ctx_Validate example_Decoder (example_ctx\<lparr>request := example_request\<lparr>ReqBody := []\<rparr>\<rparr>) 0 =
     (Some errEmptyBody,
      example_ctx\<lparr>request := example_request\<lparr>ReqBody := []\<rparr>, status := 400\<rparr>, 0) \<and>
   ctx_Validate example_Decoder validated_ctx 0 =
     (Some (errors_New ''too big''),
      validated_ctx\<lparr>request := example_request\<lparr>ReqBody := []\<rparr>, status := 400\<rparr>, 7) \<and>
   ctx_Validate example_Decoder example_ctx 0 =
     (None, example_ctx\<lparr>request := example_request\<lparr>ReqBody := []\<rparr>\<rparr>, 7)"
  using ctx_Validate_spec [where dec = example_Decoder and data = 0
      and c = "example_ctx\<lparr>request := example_request\<lparr>ReqBody := []\<rparr>\<rparr>"]
    ctx_Validate_spec [where dec = example_Decoder and data = 0
      and c = validated_ctx
      and c' = "validated_ctx\<lparr>request := example_request\<lparr>ReqBody := []\<rparr>\<rparr>"
      and data' = 7 and v = example_Validater and err = "errors_New ''too big''"]
    ctx_Validate_spec [where dec = example_Decoder and data = 0 and c = example_ctx
      and c' = "example_ctx\<lparr>request := example_request\<lparr>ReqBody := []\<rparr>\<rparr>" and data' = 7]
  by (simp add: example_ctx_def validated_ctx_def example_request_def example_Decoder_def
      example_Validater_def NewCtx_def ctx_Decode_def ctx_Status_def StatusBadRequest_def
      MethodPost_def)

text \<open>
  C10. When the decoder succeeds and the validator rejects what it decoded, \<open>Validate\<close>
  returns the validator's error and the target is the decoded value: decoding is complete
  before the validator runs, and the target is not put back.
\<close>

theorem ctx_Validate_target_populated:
  "dec (ReqBody (request c)) data = (None, data', rest) \<and> ctx.validator c = Some v \<and>
   v data' = Some err
   \<longrightarrow> fst (ctx_Validate dec c data) = Some err \<and> snd (snd (ctx_Validate dec c data)) = data'"
  by (auto simp add: ctx_Validate_def ctx_Decode_def ctx_Status_def Let_def)

text \<open>The target starts at 0; the body decodes to 7, which the validator rejects.\<close>

theorem ctx_Validate_target_populated_witness:
  "fst (ctx_Validate example_Decoder validated_ctx 0) = Some (errors_New ''too big'') \<and>
   snd (snd (ctx_Validate example_Decoder validated_ctx 0)) = 7"
  using ctx_Validate_target_populated [where dec = example_Decoder and data = 0
      and c = validated_ctx and data' = 7
      and rest = "[]" and v = example_Validater and err = "errors_New ''too big''"]
  by (simp add: validated_ctx_def example_request_def example_Decoder_def example_Validater_def
      NewCtx_def)

section \<open>The dispatch method\<close>

subsection \<open>The loop and the log\<close>

lemma handler_loop_append:
  "handler_loop ms1 c e = (None, c1, e1) \<Longrightarrow> handler_loop (ms1 @ ms2) c e = handler_loop ms2 c1 e1"
  by (induction ms1 arbitrary: c e) (auto split: prod.splits option.splits)

lemma logged_from_append:
  "logged_from i (xs @ ys) = logged_from i xs @ logged_from (i + length xs) ys"
  by (induction xs arbitrary: i) auto

lemma handler_loop_logged:
  "handler_loop ms c e = (None, c1, e1) \<Longrightarrow>
   handler_loop (logged_from i ms) c (l, e) = (None, c1, (l @ [i..<i + length ms], e1))"
proof (induction ms arbitrary: c e i l)
  case Nil
  then show ?case by simp
next
  case (Cons m ms)
  obtain res c' e' where m: "m c e = (res, c', e')" by (cases "m c e") auto
  with Cons.prems have res: "res = None" and rest: "handler_loop ms c' e' = (None, c1, e1)"
    by (auto split: option.splits)
  have "handler_loop (logged_from (Suc i) ms) c' (l @ [i], e') =
          (None, c1, ((l @ [i]) @ [Suc i..<Suc i + length ms], e1))"
    by (rule Cons.IH [OF rest])
  moreover have "[i..<i + length (m # ms)] = i # [Suc i..<Suc i + length ms]"
    by (simp add: upt_rec)
  ultimately show ?case using m res by (simp add: logged_def)
qed

lemma ran_le: "ran ms c e \<le> length ms"
  by (induction ms arbitrary: c e) (auto split: prod.splits option.splits)

lemma ran_all: "fst (handler_loop ms c e) = None \<Longrightarrow> ran ms c e = length ms"
  by (induction ms arbitrary: c e) (auto split: prod.splits option.splits)

lemma upt_step: "l @ [i..<i + Suc k] = (l @ [i]) @ [Suc i..<Suc i + k]"
proof -
  have "i < i + Suc k" by simp
  then have "[i..<i + Suc k] = i # [Suc i..<i + Suc k]" by (rule upt_conv_Cons)
  then show ?thesis by simp
qed

lemma handler_loop_logged_ran:
  "handler_loop (logged_from i ms) c (l, e) =
     (case handler_loop ms c e of (res, c', e') \<Rightarrow> (res, c', (l @ [i..<i + ran ms c e], e')))"
proof (induction ms arbitrary: i c l e)
  case Nil
  show ?case by simp
next
  case (Cons m ms)
  obtain res c' e' where m: "m c e = (res, c', e')" by (cases "m c e") auto
  show ?case
  proof (cases res)
    case None
    have "handler_loop (logged_from i (m # ms)) c (l, e) =
            handler_loop (logged_from (Suc i) ms) c' (l @ [i], e')"
      using m None by (simp add: logged_def)
    also have "\<dots> = (case handler_loop ms c' e' of (res, c'', e'') \<Rightarrow>
                 (res, c'', ((l @ [i]) @ [Suc i..<Suc i + ran ms c' e'], e'')))"
      by (rule Cons.IH)
    also have "\<dots> = (case handler_loop (m # ms) c e of (res, c'', e'') \<Rightarrow>
                 (res, c'', (l @ [i..<i + ran (m # ms) c e], e'')))"
      using m None upt_step [of l i "ran ms c' e'"] by simp
    finally show ?thesis .
  next
    case (Some err)
    with m show ?thesis by (simp add: logged_def)
  qed
qed

lemma handler_logged_prefix:
  "\<exists>k\<le>Suc (length ms).
     fst (snd (handler \<lparr>validator = v, mux = n, middlewares = logged_from 0 ms\<rparr>
                 (logged (length ms) h) w r ([], e))) = [0..<k]"
proof -
  let ?c = "NewCtx v w r"
  obtain res c' e' where run: "handler_loop ms ?c e = (res, c', e')"
    by (cases "handler_loop ms ?c e") auto
  then have lrun: "handler_loop (logged_from 0 ms) ?c ([], e) = (res, c', ([0..<ran ms ?c e], e'))"
    by (simp add: handler_loop_logged_ran)
  show ?thesis
  proof (cases res)
    case None
    with run have all: "ran ms ?c e = length ms" by (simp add: ran_all)
    obtain res2 c2 e2 where h: "h c' e' = (res2, c2, e2)" by (cases "h c' e'") auto
    have "fst (snd (handler \<lparr>validator = v, mux = n, middlewares = logged_from 0 ms\<rparr>
                 (logged (length ms) h) w r ([], e))) = [0..<Suc (length ms)]"
      using None lrun all h by (cases res2) (simp_all add: handler_def ctx_Response_def logged_def)
    then show ?thesis by blast
  next
    case (Some err)
    have "fst (snd (handler \<lparr>validator = v, mux = n, middlewares = logged_from 0 ms\<rparr>
                 (logged (length ms) h) w r ([], e))) = [0..<ran ms ?c e]"
      using Some lrun by (simp add: handler_def ctx_Response_def)
    moreover have "ran ms ?c e \<le> Suc (length ms)"
      using ran_le [of ms ?c e] by simp
    ultimately show ?thesis by blast
  qed
qed

lemma handler_logged_all:
  assumes "fst (handler_loop ms (NewCtx v w r) e) = None"
  shows "fst (snd (handler \<lparr>validator = v, mux = n, middlewares = logged_from 0 ms\<rparr>
                 (logged (length ms) h) w r ([], e))) = [0..<Suc (length ms)]"
proof -
  let ?c = "NewCtx v w r"
  obtain res c' e' where run: "handler_loop ms ?c e = (res, c', e')"
    by (cases "handler_loop ms ?c e") auto
  with assms have res: "res = None" by simp
  from run have lrun: "handler_loop (logged_from 0 ms) ?c ([], e) = (res, c', ([0..<ran ms ?c e], e'))"
    by (simp add: handler_loop_logged_ran)
  from assms have all: "ran ms ?c e = length ms" by (rule ran_all)
  obtain res2 c2 e2 where h: "h c' e' = (res2, c2, e2)" by (cases "h c' e'") auto
  show ?thesis
    using res lrun all h by (cases res2) (simp_all add: handler_def ctx_Response_def logged_def)
qed

lemma handler_logged_same:
  "fst (handler \<lparr>validator = v, mux = n, middlewares = logged_from 0 ms\<rparr>
          (logged (length ms) h) w r (l, e)) =
     fst (handler \<lparr>validator = v, mux = n, middlewares = ms\<rparr> h w r e) \<and>
   snd (snd (handler \<lparr>validator = v, mux = n, middlewares = logged_from 0 ms\<rparr>
          (logged (length ms) h) w r (l, e))) =
     snd (handler \<lparr>validator = v, mux = n, middlewares = ms\<rparr> h w r e)"
proof -
  let ?c = "NewCtx v w r"
  obtain res c' e' where run: "handler_loop ms ?c e = (res, c', e')"
    by (cases "handler_loop ms ?c e") auto
  then have lrun: "handler_loop (logged_from 0 ms) ?c (l, e) =
      (res, c', (l @ [0..<ran ms ?c e], e'))"
    by (simp add: handler_loop_logged_ran)
  obtain res2 c2 e2 where h: "h c' e' = (res2, c2, e2)" by (cases "h c' e'") auto
  show ?thesis
    using run lrun h by (cases res; cases res2) (simp_all add: handler_def ctx_Response_def logged_def)
qed

subsection \<open>Order of execution\<close>

text \<open>
  C3. The middleware are numbered in registration order, from 0, and the terminal handler
  gets the next number. Numbering changes nothing but the log: the response and the
  captured state are those of the dispatch with the handlers as they are. In every dispatch the log of the handlers that ran is an initial
  segment \<open>0, 1, ..., j - 1\<close> of these numbers: they run in registration order and none is
  skipped. If the middleware before \<open>m\<close> all succeed and \<open>m\<close> returns an error, the log
  ends with \<open>m\<close>: no later middleware and not the terminal handler runs, and the result of
  the dispatch is that of the error writer on the state \<open>m\<close> left, whatever the later
  middleware and the terminal handler are. If all middleware succeed, the log is all of
  them in order and the terminal handler last.
\<close>

theorem handler_runs_in_order:
  "fst (handler \<lparr>validator = v, mux = k, middlewares = logged_from 0 ms\<rparr>
          (logged (length ms) h) w r ([], e)) =
     fst (handler \<lparr>validator = v, mux = k, middlewares = ms\<rparr> h w r e) \<and>
   snd (snd (handler \<lparr>validator = v, mux = k, middlewares = logged_from 0 ms\<rparr>
          (logged (length ms) h) w r ([], e))) =
     snd (handler \<lparr>validator = v, mux = k, middlewares = ms\<rparr> h w r e) \<and>
   (\<exists>j\<le>Suc (length ms).
      fst (snd (handler \<lparr>validator = v, mux = k, middlewares = logged_from 0 ms\<rparr>
                  (logged (length ms) h) w r ([], e))) = [0..<j]) \<and>
   (handler_loop ms1 (NewCtx v w r) e = (None, c1, e1) \<and> m c1 e1 = (Some err, c2, e2) \<longrightarrow>
      handler \<lparr>validator = v, mux = k, middlewares = ms1 @ m # ms2\<rparr> h w r e =
        (http_Error (response c2) (Error err) 500, e2) \<and>
      snd (handler \<lparr>validator = v, mux = k, middlewares = logged_from 0 (ms1 @ m # ms2)\<rparr>
             (logged (length (ms1 @ m # ms2)) h) w r ([], e)) = ([0..<Suc (length ms1)], e2)) \<and>
   (handler_loop ms (NewCtx v w r) e = (None, c1, e1) \<and> h c1 e1 = (res, c2, e2) \<longrightarrow>
      snd (handler \<lparr>validator = v, mux = k, middlewares = logged_from 0 ms\<rparr>
             (logged (length ms) h) w r ([], e)) = ([0..<Suc (length ms)], e2))"
proof (intro conjI impI)
  show "fst (handler \<lparr>validator = v, mux = k, middlewares = logged_from 0 ms\<rparr>
          (logged (length ms) h) w r ([], e)) =
     fst (handler \<lparr>validator = v, mux = k, middlewares = ms\<rparr> h w r e)"
    using handler_logged_same [of v k ms h w r "[]" e] by simp
  show "snd (snd (handler \<lparr>validator = v, mux = k, middlewares = logged_from 0 ms\<rparr>
          (logged (length ms) h) w r ([], e))) =
     snd (handler \<lparr>validator = v, mux = k, middlewares = ms\<rparr> h w r e)"
    using handler_logged_same [of v k ms h w r "[]" e] by simp
  show "\<exists>j\<le>Suc (length ms).
      fst (snd (handler \<lparr>validator = v, mux = k, middlewares = logged_from 0 ms\<rparr>
                  (logged (length ms) h) w r ([], e))) = [0..<j]"
    by (rule handler_logged_prefix)
next
  assume a: "handler_loop ms1 (NewCtx v w r) e = (None, c1, e1) \<and> m c1 e1 = (Some err, c2, e2)"
  then have "handler_loop (ms1 @ m # ms2) (NewCtx v w r) e = (Some err, c2, e2)"
    by (simp add: handler_loop_append)
  then show "handler \<lparr>validator = v, mux = k, middlewares = ms1 @ m # ms2\<rparr> h w r e =
        (http_Error (response c2) (Error err) 500, e2)"
    by (simp add: handler_def ctx_Response_def StatusInternalServerError_def)
  from a have "handler_loop (logged_from 0 ms1) (NewCtx v w r) ([], e) =
      (None, c1, ([0..<length ms1], e1))"
    using handler_loop_logged [of ms1 "NewCtx v w r" e c1 e1 0 "[]"] by simp
  then have "handler_loop (logged_from 0 (ms1 @ m # ms2)) (NewCtx v w r) ([], e) =
      (Some err, c2, ([0..<Suc (length ms1)], e2))"
    using a by (simp add: logged_from_append handler_loop_append logged_def)
  then show "snd (handler \<lparr>validator = v, mux = k, middlewares = logged_from 0 (ms1 @ m # ms2)\<rparr>
             (logged (length (ms1 @ m # ms2)) h) w r ([], e)) = ([0..<Suc (length ms1)], e2)"
    by (simp add: handler_def ctx_Response_def)
next
  assume a: "handler_loop ms (NewCtx v w r) e = (None, c1, e1) \<and> h c1 e1 = (res, c2, e2)"
  then have "handler_loop (logged_from 0 ms) (NewCtx v w r) ([], e) =
      (None, c1, ([0..<length ms], e1))"
    using handler_loop_logged [of ms "NewCtx v w r" e c1 e1 0 "[]"] by simp
  then show "snd (handler \<lparr>validator = v, mux = k, middlewares = logged_from 0 ms\<rparr>
             (logged (length ms) h) w r ([], e)) = ([0..<Suc (length ms)], e2)"
    using a by (cases res) (simp_all add: handler_def ctx_Response_def logged_def)
qed

text \<open>
  Three middleware of which the second fails: the log is 0, 1. Two middleware that
  succeed: the log is 0, 1 and the terminal handler 2.
\<close>

theorem handler_runs_in_order_witness:
  "snd (handler \<lparr>validator = None, mux = 0,
          middlewares = logged_from 0 [pass_Handler, deny_Handler, pass_Handler]\<rparr>
        (logged 3 hello_Handler) NewRecorder example_request ([], ())) = ([0, 1], ()) \<and>
   snd (handler \<lparr>validator = None, mux = 0,
          middlewares = logged_from 0 [pass_Handler, pass_Handler]\<rparr>
        (logged 2 hello_Handler) NewRecorder example_request ([], ())) = ([0, 1, 2], ())"
proof -
  let ?c = "NewCtx None NewRecorder example_request :: nat ctx"
  have p1: "handler_loop [pass_Handler] ?c () = (None, ?c, ())"
    by (simp add: pass_Handler_def ctx_Next_def)
  have p2: "handler_loop [pass_Handler, pass_Handler] ?c () = (None, ?c, ())"
    by (simp add: pass_Handler_def ctx_Next_def)
  have d: "deny_Handler ?c () =
      (Some (errors_New ''access denied''), snd (ctx_SendError (ctx_Status ?c 403) (errors_New ''access denied'')), ())"
    by (simp add: deny_Handler_def ctx_SendError_def)
  have h: "hello_Handler ?c () = (None, snd (ctx_Write ResponseRecorder_Write ?c ''hello''), ())"
    by (simp add: hello_Handler_def ctx_Write_def ResponseRecorder_Write_def Let_def)
  have "snd (handler \<lparr>validator = None, mux = 0,
          middlewares = logged_from 0 ([pass_Handler] @ deny_Handler # [pass_Handler])\<rparr>
        (logged (length ([pass_Handler] @ deny_Handler # [pass_Handler])) hello_Handler)
        NewRecorder example_request ([], ())) = ([0..<Suc (length [pass_Handler])], ())"
    using handler_runs_in_order [where ?ms1.0 = "[pass_Handler]" and m = deny_Handler
      and ?ms2.0 = "[pass_Handler]" and h = hello_Handler and v = None and k = 0
      and w = NewRecorder and r = example_request and e = "()"] p1 d
    by blast
  moreover have "snd (handler \<lparr>validator = None, mux = 0,
          middlewares = logged_from 0 [pass_Handler, pass_Handler]\<rparr>
        (logged (length [pass_Handler, pass_Handler]) hello_Handler)
        NewRecorder example_request ([], ())) = ([0..<Suc (length [pass_Handler, pass_Handler])], ())"
    using handler_runs_in_order [where ms = "[pass_Handler, pass_Handler]" and h = hello_Handler
      and v = None and k = 0 and w = NewRecorder and r = example_request and e = "()"] p2 h
    by blast
  ultimately show ?thesis by (simp add: numeral_3_eq_3 numeral_2_eq_2 upt_rec)
qed

subsection \<open>Errors returned out of the chain\<close>

text \<open>
  C1, as the code has it. When a middleware returns an error, or all middleware succeed and
  the terminal handler returns an error, \<open>handler\<close> calls \<open>http.Error\<close> with the error's
  message and the status 500 on the context's response, and ends. The stored status of
  the context is not read. So the status line is the one already written on the response,
  if one is, and 500 otherwise, and the body is what was written before, then the
  message, then a newline. \<open>SendError\<close> on a response without a status line writes the
  stored status as the status line and returns the error it was given: a handler that
  returns \<open>ctx.Status(code).SendError(err)\<close> gets \<open>code\<close> as the status line.
\<close>

theorem handler_error_response:
  "(handler_loop (middlewares rt) (NewCtx (wayes.validator rt) w r) e = (Some err, c', e') \<longrightarrow>
      handler rt h w r e = (http_Error (response c') (Error err) 500, e')) \<and>
   (handler_loop (middlewares rt) (NewCtx (wayes.validator rt) w r) e = (None, c', e') \<and>
    h c' e' = (Some err, c'', e'') \<longrightarrow>
      handler rt h w r e = (http_Error (response c'') (Error err) 500, e'')) \<and>
   Code (http_Error w' msg 500) = (if wroteHeader w' then Code w' else 500) \<and>
   Body (http_Error w' msg 500) = Body w' @ msg @ [CHR 0x0A] \<and>
   (\<not> wroteHeader (response c) \<longrightarrow>
      ctx_SendError c err = (Some err, c\<lparr>response := (response c)\<lparr>Code := status c, wroteHeader := True\<rparr>\<rparr>))"
  by (simp add: handler_def ctx_Response_def http_Error_def WriteHeader_def Write_bytes_def ctx_SendError_def
      StatusInternalServerError_def Let_def)

text \<open>
  A middleware that returns \<open>ctx.Status(403).SendError(err)\<close> gives the status line 403 and
  the message as the body; a terminal handler that sets the status to 403 and returns the
  error itself gives the status line 500.
\<close>

theorem handler_error_response_witness:
  "handler (example_router\<lparr>middlewares := [pass_Handler, deny_Handler]\<rparr>) hello_Handler
     NewRecorder example_request () =
     (http_Error (NewRecorder\<lparr>Code := 403, wroteHeader := True\<rparr>) ''access denied'' 500, ()) \<and>
   Code (http_Error (NewRecorder\<lparr>Code := 403, wroteHeader := True\<rparr>) ''access denied'' 500) = 403 \<and>
   Body (http_Error (NewRecorder\<lparr>Code := 403, wroteHeader := True\<rparr>) ''access denied'' 500) =
     ''access denied'' @ [CHR 0x0A] \<and>
   handler example_router status_only_Handler NewRecorder example_request () =
     (http_Error NewRecorder ''access denied'' 500, ()) \<and>
   Code (http_Error NewRecorder ''access denied'' 500) = 500"
  using handler_error_response [where rt = "example_router\<lparr>middlewares := [pass_Handler, deny_Handler]\<rparr>"
      and h = hello_Handler and w = NewRecorder and r = example_request and e = "()"
      and err = "errors_New ''access denied''" and e' = "()"
      and c' = "(NewCtx None NewRecorder example_request)
                  \<lparr>response := NewRecorder\<lparr>Code := 403, wroteHeader := True\<rparr>, status := 403\<rparr>"
      and w' = "NewRecorder\<lparr>Code := 403, wroteHeader := True\<rparr>" and msg = "''access denied''"
      and c = "ctx_Status (NewCtx None NewRecorder example_request) 403"]
    handler_error_response [where rt = example_router
      and h = status_only_Handler and w = NewRecorder and r = example_request and e = "()"
      and err = "errors_New ''access denied''" and e'' = "()" and c' = "NewCtx None NewRecorder example_request"
      and c'' = "(NewCtx None NewRecorder example_request)\<lparr>status := 403\<rparr>"
      and w' = NewRecorder and msg = "''access denied''"
      and c = "ctx_Status (NewCtx None NewRecorder example_request) 403"]
  by (simp add: example_router_def pass_Handler_def deny_Handler_def status_only_Handler_def
      ctx_Next_def ctx_SendError_def ctx_Status_def NewCtx_def NewRecorder_def WriteHeader_def
      StatusOK_def)

text \<open>
  C1 as the claim has it, with the status line being the status the context holds, fails:
  the handler sets the status of the context to 403 and returns an error, and the status
  line is 500.
\<close>

theorem handler_error_response_counterexample:
  "status (fst (snd (status_only_Handler (NewCtx None NewRecorder example_request) ()))) = 403 \<and>
   Code (fst (handler example_router status_only_Handler NewRecorder example_request ())) = 500"
  by (simp add: handler_def ctx_Response_def example_router_def status_only_Handler_def NewCtx_def NewRecorder_def
      ctx_Status_def http_Error_def WriteHeader_def Write_bytes_def StatusInternalServerError_def)

section \<open>Routers, groups and combined routers\<close>

lemma foldl_snoc: "foldl (\<lambda>ms h. ms @ [h]) acc hs = acc @ hs"
  by (induction hs arbitrary: acc) auto

lemma wayes_Group_Returns:
  "wayes_Group rt path s = Returns (g, s1) \<Longrightarrow>
     rt < length (routers s) \<and> g = length (routers s) \<and>
     routers s1 = routers s @
       [\<lparr>validator = wayes.validator (routers s ! rt), mux = length (muxes s),
          middlewares = middlewares (routers s ! rt)\<rparr>]"
  by (auto simp add: wayes_Group_def New_def wayes_Use_def ServeMux_Handle_def foldl_snoc
      nth_append Let_def split: if_splits outcome.splits prod.splits)

lemma wayes_Use_Returns:
  "wayes_Use rt hs s = Returns s' \<Longrightarrow>
     rt < length (routers s) \<and> muxes s' = muxes s \<and>
     routers s' = (routers s)[rt := (routers s ! rt)\<lparr>middlewares := middlewares (routers s ! rt) @ hs\<rparr>]"
  by (auto simp add: wayes_Use_def foldl_snoc split: if_splits)

lemma wayes_Group_Use_object:
  assumes "wayes_Group rt path s = Returns (g, s1)" and "wayes_Use g own s1 = Returns s2"
  shows "g < length (routers s2) \<and>
    routers s2 ! g = \<lparr>validator = wayes.validator (routers s ! rt), mux = length (muxes s),
                       middlewares = middlewares (routers s ! rt) @ own\<rparr>"
proof -
  from assms(1) wayes_Group_Returns [of rt path s g s1] have g: "g = length (routers s)"
    and r1: "routers s1 = routers s @
       [\<lparr>validator = wayes.validator (routers s ! rt), mux = length (muxes s),
          middlewares = middlewares (routers s ! rt)\<rparr>]"
    by auto
  from assms(2) wayes_Use_Returns [of g own s1 s2] have
    r2: "routers s2 = (routers s1)[g := (routers s1 ! g)
           \<lparr>middlewares := middlewares (routers s1 ! g) @ own\<rparr>]"
    and v: "g < length (routers s1)"
    by auto
  from r1 r2 g v show ?thesis by simp
qed


text \<open>
  C5. A group's middleware list is a copy made when the group is made: it is the parent's
  list of that moment, the group is another object than the parent, and \<open>Use\<close> on the
  parent, in any later heap where the group still is, leaves the group object as it is,
  and so what \<open>handler\<close> does for the group.
\<close>

theorem Group_middlewares_snapshot:
  "wayes_Group rt path s = Returns (g, s1) \<and> g < length (routers s') \<and>
   wayes_Use rt hs s' = Returns s'' \<longrightarrow>
     middlewares (routers s1 ! g) = middlewares (routers s ! rt) \<and>
     g \<noteq> rt \<and>
     routers s'' ! g = routers s' ! g \<and>
     handler (routers s'' ! g) h w r e = handler (routers s' ! g) h w r e"
proof
  assume a: "wayes_Group rt path s = Returns (g, s1) \<and> g < length (routers s') \<and>
   wayes_Use rt hs s' = Returns s''"
  from a wayes_Group_Returns [of rt path s g s1] have g: "rt < length (routers s)"
    "g = length (routers s)" and r1: "routers s1 = routers s @
       [\<lparr>validator = wayes.validator (routers s ! rt), mux = length (muxes s),
          middlewares = middlewares (routers s ! rt)\<rparr>]" by auto
  from a wayes_Use_Returns [of rt hs s' s''] have
    r2: "routers s'' = (routers s')[rt := (routers s' ! rt)\<lparr>middlewares := middlewares (routers s' ! rt) @ hs\<rparr>]"
    by auto
  from g have ne: "g \<noteq> rt" by simp
  from r2 ne have same: "routers s'' ! g = routers s' ! g" by simp
  from r1 g have "middlewares (routers s1 ! g) = middlewares (routers s ! rt)" by simp
  with ne same show "middlewares (routers s1 ! g) = middlewares (routers s ! rt) \<and>
     g \<noteq> rt \<and>
     routers s'' ! g = routers s' ! g \<and>
     handler (routers s'' ! g) h w r e = handler (routers s' ! g) h w r e" by simp
qed

text \<open>
  A router with two middleware, its group, then \<open>Use\<close> with a third middleware on the
  router: the router has three, the group the two it was made with.
\<close>

theorem Group_middlewares_snapshot_witness:
  "wayes_Group 0 ''/users'' example_heap = Returns (1, grouped_heap) \<and>
   wayes_Use 0 [hello_Handler] grouped_heap = Returns used_heap \<and>
   middlewares (routers used_heap ! 0) = [pass_Handler, deny_Handler, hello_Handler] \<and>
   middlewares (routers grouped_heap ! 1) = middlewares (routers example_heap ! 0) \<and>
   routers used_heap ! 1 = routers grouped_heap ! 1"
proof -
  have g: "wayes_Group 0 ''/users'' example_heap = Returns (1, grouped_heap)"
    by (simp add: wayes_Group_def New_def wayes_Use_def ServeMux_Handle_def example_heap_def
        grouped_heap_def)
  have u: "wayes_Use 0 [hello_Handler] grouped_heap = Returns used_heap"
    by (simp add: wayes_Use_def grouped_heap_def used_heap_def)
  have v: "1 < length (routers grouped_heap)"
    by (simp add: grouped_heap_def)
  from g u v Group_middlewares_snapshot [of 0 "''/users''" example_heap 1 grouped_heap
      grouped_heap "[hello_Handler]" used_heap]
  have "middlewares (routers grouped_heap ! 1) = middlewares (routers example_heap ! 0) \<and>
     routers used_heap ! 1 = routers grouped_heap ! 1"
    by blast
  with g u show ?thesis by (simp add: used_heap_def)
qed

text \<open>
  C6. When the parent has two middleware as the group is made, the group's list after its
  own \<open>Use\<close> is these two, in their order, followed by its own. To see the order of
  execution, let the parent's two middleware be numbered 0 and 1 and the group's own from 2; the terminal handler of a route of the group gets
  the number after them. The group's list is then the two inherited middleware, in their
  order, followed by its own. A request that reaches the route's closure is dispatched by
  \<open>handler\<close> on the group, and the log of every such dispatch is an initial segment of
  \<open>0, 1, 2, ...\<close>: the inherited middleware run first and in their order, then the
  group's own, and the terminal handler after all of them. When all middleware succeed
  the log is the whole sequence.
\<close>

theorem Group_runs_inherited_first:
  "(middlewares (routers t ! pt) = [p1, p2] \<and>
    wayes_Group pt ppath t = Returns (pg, t1) \<and>
    wayes_Use pg pown t1 = Returns t2 \<longrightarrow>
      middlewares (routers t2 ! pg) = p1 # p2 # pown) \<and>
   (middlewares (routers s ! rt) = [logged 0 m1, logged 1 m2] \<and>
   wayes_Group rt path s = Returns (g, s1) \<and>
   wayes_Use g (logged_from 2 own) s1 = Returns s2 \<longrightarrow>
     middlewares (routers s2 ! g) = logged_from 0 (m1 # m2 # own) \<and>
     HandlerFunc_ServeHTTP s2 g (logged (length own + 2) h) w r ([], e) =
       Returns (handler (routers s2 ! g) (logged (length own + 2) h) w r ([], e)) \<and>
     (\<exists>k\<le>length own + 3.
        fst (snd (handler (routers s2 ! g) (logged (length own + 2) h) w r ([], e))) = [0..<k]) \<and>
     (fst (handler_loop (m1 # m2 # own) (NewCtx (wayes.validator (routers s ! rt)) w r) e) = None \<longrightarrow>
        fst (snd (handler (routers s2 ! g) (logged (length own + 2) h) w r ([], e))) =
          [0..<length own + 3]))"
proof (rule conjI; rule impI)
  assume "middlewares (routers t ! pt) = [p1, p2] \<and>
    wayes_Group pt ppath t = Returns (pg, t1) \<and>
    wayes_Use pg pown t1 = Returns t2"
  with wayes_Group_Use_object [of pt ppath t pg t1 pown t2]
  show "middlewares (routers t2 ! pg) = p1 # p2 # pown" by simp
next
  assume a: "middlewares (routers s ! rt) = [logged 0 m1, logged 1 m2] \<and>
   wayes_Group rt path s = Returns (g, s1) \<and>
   wayes_Use g (logged_from 2 own) s1 = Returns s2"
  let ?v = "wayes.validator (routers s ! rt)"
  let ?H = "logged (length own + 2) h"
  from a wayes_Group_Use_object [of rt path s g s1 "logged_from 2 own" s2]
  have len: "g < length (routers s2)" and obj: "routers s2 ! g =
      \<lparr>validator = ?v, mux = length (muxes s), middlewares = logged_from 0 (m1 # m2 # own)\<rparr>"
    by (simp_all add: numeral_2_eq_2)
  have l2: "length (m1 # m2 # own) = length own + 2" by simp
  have l3: "Suc (length own + 2) = length own + 3" by simp
  have pre: "\<exists>k\<le>length own + 3.
        fst (snd (handler (routers s2 ! g) ?H w r ([], e))) = [0..<k]"
    using handler_logged_prefix [of "m1 # m2 # own" ?v "length (muxes s)" h w r e]
    unfolding obj l2 l3 .
  have all: "fst (handler_loop (m1 # m2 # own) (NewCtx ?v w r) e) = None \<longrightarrow>
        fst (snd (handler (routers s2 ! g) ?H w r ([], e))) = [0..<length own + 3]"
    using handler_logged_all [of "m1 # m2 # own" ?v w r e "length (muxes s)" h]
    unfolding obj l2 l3 by blast
  from obj len pre all show "middlewares (routers s2 ! g) = logged_from 0 (m1 # m2 # own) \<and>
     HandlerFunc_ServeHTTP s2 g ?H w r ([], e) = Returns (handler (routers s2 ! g) ?H w r ([], e)) \<and>
     (\<exists>k\<le>length own + 3. fst (snd (handler (routers s2 ! g) ?H w r ([], e))) = [0..<k]) \<and>
     (fst (handler_loop (m1 # m2 # own) (NewCtx ?v w r) e) = None \<longrightarrow>
        fst (snd (handler (routers s2 ! g) ?H w r ([], e))) = [0..<length own + 3])"
    by (simp add: HandlerFunc_ServeHTTP_def)
qed

text \<open>
  The parent with the middleware 0 and 1, the group with its own middleware 2 and a route
  whose handler is 3: the log is 0, 1, 2, 3.
\<close>

theorem Group_runs_inherited_first_witness:
  "wayes_Group 0 ''/users'' example_heap = Returns (1, grouped_heap) \<and>
   wayes_Use 1 [hello_Handler] grouped_heap = Returns group_used_heap \<and>
   middlewares (routers group_used_heap ! 1) = [pass_Handler, deny_Handler, hello_Handler] \<and>
   wayes_Group 0 ''/users'' chain_heap = Returns (1, chain_grouped_heap) \<and>
   wayes_Use 1 (logged_from 2 [pass_Handler]) chain_grouped_heap = Returns chain_used_heap \<and>
   middlewares (routers chain_used_heap ! 1) =
     [logged 0 pass_Handler, logged 1 pass_Handler, logged 2 pass_Handler] \<and>
   fst (snd (handler (routers chain_used_heap ! 1) (logged 3 hello_Handler)
               NewRecorder example_request ([], ()))) = [0, 1, 2, 3]"
proof -
  have m: "middlewares (routers chain_heap ! 0) = [logged 0 pass_Handler, logged 1 pass_Handler]"
    by (simp add: chain_heap_def)
  have g: "wayes_Group 0 ''/users'' chain_heap = Returns (1, chain_grouped_heap)"
    by (simp add: wayes_Group_def New_def wayes_Use_def ServeMux_Handle_def chain_heap_def
        chain_grouped_heap_def)
  have u: "wayes_Use 1 (logged_from 2 [pass_Handler]) chain_grouped_heap = Returns chain_used_heap"
    by (simp add: wayes_Use_def chain_grouped_heap_def chain_used_heap_def numeral_2_eq_2)
  have p: "fst (handler_loop [pass_Handler, pass_Handler, pass_Handler]
             (NewCtx (wayes.validator (routers chain_heap ! 0)) NewRecorder example_request) ()) = None"
    by (simp add: pass_Handler_def ctx_Next_def)
  have m': "middlewares (routers example_heap ! 0) = [pass_Handler, deny_Handler]"
    by (simp add: example_heap_def)
  have g': "wayes_Group 0 ''/users'' example_heap = Returns (1, grouped_heap)"
    by (simp add: wayes_Group_def New_def wayes_Use_def ServeMux_Handle_def example_heap_def
        grouped_heap_def)
  have u': "wayes_Use 1 [hello_Handler] grouped_heap = Returns group_used_heap"
    by (simp add: wayes_Use_def grouped_heap_def group_used_heap_def)
  note inst = Group_runs_inherited_first [where t = example_heap and pt = 0 and ?p1.0 = pass_Handler
      and ?p2.0 = deny_Handler and ppath = "''/users''" and pg = 1 and ?t1.0 = grouped_heap
      and pown = "[hello_Handler]" and ?t2.0 = group_used_heap
      and s = chain_heap and rt = 0 and ?m1.0 = pass_Handler and ?m2.0 = pass_Handler
      and path = "''/users''" and g = 1 and ?s1.0 = chain_grouped_heap and own = "[pass_Handler]"
      and ?s2.0 = chain_used_heap and h = hello_Handler and w = NewRecorder
      and r = example_request and e = "()"]
  from m' g' u' inst
  have own: "middlewares (routers group_used_heap ! 1) = [pass_Handler, deny_Handler, hello_Handler]"
    by blast
  from m g u p inst
  have "middlewares (routers chain_used_heap ! 1) =
          logged_from 0 [pass_Handler, pass_Handler, pass_Handler] \<and>
        fst (snd (handler (routers chain_used_heap ! 1) (logged (length [pass_Handler] + 2) hello_Handler)
               NewRecorder example_request ([], ()))) = [0..<length [pass_Handler] + 3]"
    by blast
  moreover have "[0..<length [pass_Handler] + 3] = [0, 1, 2, 3]"
    by (simp add: upt_conv_Cons)
  moreover have "length [pass_Handler] + 2 = 3"
    by simp
  ultimately show ?thesis using g u g' u' own by (simp add: numeral_2_eq_2 numeral_3_eq_3)
qed

subsection \<open>Combine\<close>

text \<open>
  \<open>Combine\<close> registers every given mux under the one pattern \<open>/\<close> of the receiver's mux.
  The first registration takes the pattern; the second meets it registered and panics.
\<close>

lemma ServeMux_Handle_twice:
  "ServeMux_Handle m pattern h1 s = Returns s' \<Longrightarrow>
   ServeMux_Handle m pattern h2 s' = Panics (''pattern conflicts with a registered pattern: '' @ pattern)"
  by (auto simp add: ServeMux_Handle_def split: if_splits)

lemma Combine_loop_two_panics:
  "\<exists>p. Combine_loop rt (t1 # t2 # ts) s = Panics p"
  by (auto simp add: wayes_Mux_def ServeMux_Handle_def split: outcome.splits if_splits)

lemma wayes_Combine_two_panics:
  "\<exists>p. wayes_Combine rt (t1 # t2 # ts) s = Panics p"
  using Combine_loop_two_panics [of rt t1 t2 ts s] by (auto simp add: wayes_Combine_def)

lemma wayes_Combine_one_table:
  "wayes_Combine 0 [1] combine_heap =
     Returns (0, combine_heap\<lparr>muxes := (muxes combine_heap)
        [0 := [(''GET /a'', HandlerFunc 0 hello_Handler), (''/'', ServeMuxHandler 1)]]\<rparr>)"
  by (simp add: wayes_Combine_def wayes_Mux_def ServeMux_Handle_def combine_heap_def)

text \<open>
  C2. The claim is that every given table is mounted under \<open>/\<close>, in call order, and that
  the mux of the receiver is returned. With the two tables 1 and 2 given to the router 0,
  on a heap of three routers with one route each, \<open>Combine\<close> does not return: it panics at
  the second table.
\<close>

theorem wayes_Combine_two_tables:
  "wayes_Combine 0 [1, 2] combine_heap = Panics ''pattern conflicts with a registered pattern: /''"
  by (simp add: wayes_Combine_def wayes_Mux_def ServeMux_Handle_def combine_heap_def)

end
